theory Spec2Isabelle
  imports Main
begin

section \<open>The web search helper \<^verbatim>\<open>scripts/search.py\<close>\<close>

text \<open>
  The script joins its command-line arguments into a query, hands the query to the search
  provider \<^verbatim>\<open>DDGS().text(query, max_results=max_results)\<close>, reshapes every returned record
  into a dictionary with the keys \<^verbatim>\<open>title\<close>, \<^verbatim>\<open>url\<close> and \<^verbatim>\<open>snippet\<close>, and prints the list
  with \<^verbatim>\<open>json.dumps\<close>. The provider is a third-party library: it is a parameter of the model.
\<close>

subsection \<open>Values\<close>

text \<open>
  An exception that \<^verbatim>\<open>except Exception as e\<close> catches, given by the text \<^verbatim>\<open>str(e)\<close>.
  \<^verbatim>\<open>KeyboardInterrupt\<close> and \<^verbatim>\<open>SystemExit\<close> are no instances of \<^verbatim>\<open>Exception\<close>; the handler
  does not see them and they are not modelled.
\<close>

datatype py_exception = PyException string

fun str :: "py_exception \<Rightarrow> string" where
  "str (PyException msg) = msg"

text \<open>
  A value that the provider stores in a record. \<^verbatim>\<open>None\<close>, a boolean and a string are what
  \<^verbatim>\<open>json.dumps\<close> always writes. Every other Python object (a number, a list, a set, bytes)
  is \<open>POther\<close>: its \<^verbatim>\<open>repr\<close>, and the exception that \<^verbatim>\<open>json.dumps\<close> raises when it meets the
  object (an unsupported type, an integer beyond the digit limit of the interpreter, a
  nesting beyond its recursion limit), or \<open>None\<close> when \<^verbatim>\<open>json.dumps\<close> writes the object.
\<close>

datatype pyval =
    PNone
  | PBool bool
  | PStr string
  | POther string "py_exception option"

text \<open>
  What the script hands to \<^verbatim>\<open>json.dumps\<close>: a list or a dictionary literal of its own
  (the keys of a \<open>JObject\<close> are in the order of the literal), with values of the provider
  or strings of the script at the leaves.
\<close>

datatype json =
    JValue pyval
  | JArray "json list"
  | JObject "(string \<times> json) list"

abbreviation JNull :: json where
  "JNull \<equiv> JValue PNone"

abbreviation JString :: "string \<Rightarrow> json" where
  "JString s \<equiv> JValue (PStr s)"

text \<open>
  \<^verbatim>\<open>json.dumps(d)\<close> walks \<open>d\<close> in order and raises at the first value it cannot write;
  \<open>unwritable d\<close> lists the exceptions of such values in that order. When there is none,
  the text is written; the model keeps the document \<open>d\<close> in place of its text.
\<close>

fun unwritable :: "json \<Rightarrow> py_exception list" where
  "unwritable (JValue (POther r (Some e))) = [e]"
| "unwritable (JValue v) = []"
| "unwritable (JArray ds) = concat (map unwritable ds)"
| "unwritable (JObject kvs) = concat (map (\<lambda>kv. unwritable (snd kv)) kvs)"

definition json_dumps :: "json \<Rightarrow> py_exception + json" where
  "json_dumps d = (case unwritable d of [] \<Rightarrow> Inr d | e # es \<Rightarrow> Inl e)"

subsection \<open>The provider\<close>

text \<open>
  A record of the provider is a dictionary; its values are whatever the provider stored.
  The provider call either raises or returns a sequence. Reading an element of the
  sequence inside the comprehension (fetching it from the iterator, or calling
  \<^verbatim>\<open>r.get\<close> on it) either goes through, for a dictionary, or raises: \<open>Faulty e\<close> is an
  element at which the exception \<open>e\<close> is raised.
\<close>

type_synonym provider_record = "string \<rightharpoonup> pyval"

datatype item = Record provider_record | Faulty py_exception

datatype response = Raises py_exception | Returns "item list"

type_synonym provider = "string \<Rightarrow> int \<Rightarrow> response"

subsection \<open>The process state\<close>

text \<open>
  What the process does to the outside: the documents printed on standard output, in
  order, and the calls made to the provider (query and \<^verbatim>\<open>max_results\<close>), in order. The
  traceback that the interpreter writes for an uncaught exception goes to standard error
  and is not recorded.
\<close>

record world =
  stdout :: "json list"
  calls :: "(string \<times> int) list"

definition start :: world where
  "start = \<lparr>stdout = [], calls = []\<rparr>"

text \<open>
  \<^verbatim>\<open>print(json.dumps(v))\<close>: the exception of \<^verbatim>\<open>json.dumps\<close> with nothing printed, or
  the state with one more document on standard output.
\<close>

definition print_json :: "json \<Rightarrow> world \<Rightarrow> py_exception + world" where
  "print_json v w =
     (case json_dumps v of
        Inl e \<Rightarrow> Inl e
      | Inr d \<Rightarrow> Inr (w\<lparr>stdout := stdout w @ [d]\<rparr>))"

definition call_provider :: "provider \<Rightarrow> string \<Rightarrow> int \<Rightarrow> world \<Rightarrow> response \<times> world" where
  "call_provider p query max_results w =
     (p query max_results, w\<lparr>calls := calls w @ [(query, max_results)]\<rparr>)"

subsection \<open>\<^verbatim>\<open>search\<close>\<close>

text \<open>\<^verbatim>\<open>r.get(key, default)\<close> on a dictionary.\<close>

definition dict_get :: "provider_record \<Rightarrow> string \<Rightarrow> pyval \<Rightarrow> pyval" where
  "dict_get r k d = (case r k of None \<Rightarrow> d | Some v \<Rightarrow> v)"

text \<open>The dictionary literal built for one record \<open>r\<close> in the comprehension.\<close>

definition record_of :: "provider_record \<Rightarrow> json" where
  "record_of r =
     JObject [(''title'', JValue (dict_get r ''title'' (PStr ''''))),
              (''url'', JValue (dict_get r ''href'' (PStr ''''))),
              (''snippet'', JValue (dict_get r ''body'' (PStr '''')))]"

text \<open>
  The list comprehension \<^verbatim>\<open>[{...} for r in results]\<close>: the first element that raises
  ends it, and no list is produced.
\<close>

fun comprehension :: "item list \<Rightarrow> py_exception + json list" where
  "comprehension [] = Inr []"
| "comprehension (Faulty e # rest) = Inl e"
| "comprehension (Record r # rest) =
     (case comprehension rest of
        Inl e \<Rightarrow> Inl e
      | Inr out \<Rightarrow> Inr (record_of r # out))"

text \<open>
  How a call ends: it returns a value, it leaves the process through \<^verbatim>\<open>sys.exit(code)\<close>,
  or an exception leaves it.
\<close>

datatype 'a outcome = Returned 'a | Exited int | Raised py_exception

text \<open>
  The \<^verbatim>\<open>try\<close> block of \<^verbatim>\<open>search\<close> holds both the provider call and the comprehension.
  The handler prints the error object and calls \<^verbatim>\<open>sys.exit(1)\<close>; an exception of its own
  \<^verbatim>\<open>print(json.dumps(...))\<close> would leave \<^verbatim>\<open>search\<close>.
\<close>

definition search :: "provider \<Rightarrow> string \<Rightarrow> int \<Rightarrow> world \<Rightarrow> json list outcome \<times> world" where
  "search p query max_results w =
     (case call_provider p query max_results w of
        (resp, w1) \<Rightarrow>
          (case (case resp of
                   Raises e \<Rightarrow> Inl e
                 | Returns results \<Rightarrow> comprehension results) of
             Inr out \<Rightarrow> (Returned out, w1)
           | Inl e \<Rightarrow>
               (case print_json (JObject [(''error'', JString (str e))]) w1 of
                  Inl e' \<Rightarrow> (Raised e', w1)
                | Inr w2 \<Rightarrow> (Exited 1, w2))))"

subsection \<open>The main block\<close>

text \<open>\<^verbatim>\<open>sep.join(xs)\<close> on a list of strings.\<close>

fun join :: "string \<Rightarrow> string list \<Rightarrow> string" where
  "join sep [] = []"
| "join sep [x] = x"
| "join sep (x # y # ys) = x @ sep @ join sep (y # ys)"

text \<open>
  \<open>sys_argv\<close> is \<^verbatim>\<open>sys.argv\<close>: the program name, then the arguments. The result is the
  exit code of the process and the state it leaves. \<^verbatim>\<open>search(query)\<close> takes the default
  \<^verbatim>\<open>max_results = 6\<close>. The last \<^verbatim>\<open>print(json.dumps(results))\<close> is outside every
  \<^verbatim>\<open>try\<close>: an exception of \<^verbatim>\<open>json.dumps\<close> there is uncaught, nothing is printed and the
  interpreter ends the process with exit code 1, as it does for every uncaught exception.
\<close>

definition main :: "provider \<Rightarrow> string list \<Rightarrow> world \<Rightarrow> int \<times> world" where
  "main p sys_argv w =
     (if length sys_argv < 2
      then
        (case print_json (JObject [(''error'', JString ''No query provided'')]) w of
           Inl e \<Rightarrow> (1, w)
         | Inr w1 \<Rightarrow> (1, w1))
      else
        let query = join '' '' (drop 1 sys_argv) in
        (case search p query 6 w of
           (Exited code, w1) \<Rightarrow> (code, w1)
         | (Raised e, w1) \<Rightarrow> (1, w1)
         | (Returned results, w1) \<Rightarrow>
             (case print_json (JArray results) w1 of
                Inl e \<Rightarrow> (1, w1)
              | Inr w2 \<Rightarrow> (0, w2))))"

subsection \<open>Providers and predicates for concrete runs\<close>

text \<open>
  A provider that answers every call with the same response, whatever the query and
  whatever \<^verbatim>\<open>max_results\<close>; it stands for the library in the concrete runs below.
\<close>

definition fixed_provider :: "response \<Rightarrow> provider" where
  "fixed_provider resp query max_results = resp"

text \<open>\<^verbatim>\<open>isinstance(v, str)\<close> on a value of a printed document.\<close>

fun is_string :: "json \<Rightarrow> bool" where
  "is_string (JValue (PStr s)) = True"
| "is_string v = False"

section \<open>Properties\<close>

subsection \<open>Auxiliary facts\<close>

lemma comprehension_records: "comprehension (map Record rs) = Inr (map record_of rs)"
  by (induction rs) simp_all

lemma comprehension_faulty: "comprehension (map Record rs @ Faulty e # rest) = Inl e"
  by (induction rs) simp_all

lemma record_of_fields:
  "record_of r =
     JObject [(''title'', JValue (case r ''title'' of None \<Rightarrow> PStr '''' | Some v \<Rightarrow> v)),
              (''url'', JValue (case r ''href'' of None \<Rightarrow> PStr '''' | Some v \<Rightarrow> v)),
              (''snippet'', JValue (case r ''body'' of None \<Rightarrow> PStr '''' | Some v \<Rightarrow> v))]"
  by (simp add: record_of_def dict_get_def)

lemma join_space: "join sep (a # as) = a @ concat (map ((@) sep) as)"
  by (induction as arbitrary: a) simp_all

lemma join_empty_strings: "join '' '' (replicate (Suc n) '''') = replicate n (CHR '' '')"
  by (induction n) simp_all

text \<open>The error object of the script is always written: a string is its only value.\<close>

lemma print_error_object:
  "print_json (JObject [(''error'', JString msg)]) w =
     Inr (w\<lparr>stdout := stdout w @ [JObject [(''error'', JString msg)]]\<rparr>)"
  by (simp add: print_json_def json_dumps_def)

lemma print_array:
  "print_json (JArray ds) w =
     (case unwritable (JArray ds) of
        [] \<Rightarrow> Inr (w\<lparr>stdout := stdout w @ [JArray ds]\<rparr>)
      | e # es \<Rightarrow> Inl e)"
  by (cases "unwritable (JArray ds)") (simp_all add: print_json_def json_dumps_def del: unwritable.simps)

lemma main_no_arguments:
  "main p [prog] w = (1, w\<lparr>stdout := stdout w @ [JObject [(''error'', JString ''No query provided'')]]\<rparr>)"
  by (simp add: main_def print_error_object)

lemma main_arguments:
  "args \<noteq> [] \<Longrightarrow>
   main p (prog # args) w =
     (case search p (join '' '' args) 6 w of
        (Exited code, w1) \<Rightarrow> (code, w1)
      | (Raised e, w1) \<Rightarrow> (1, w1)
      | (Returned results, w1) \<Rightarrow>
          (case print_json (JArray results) w1 of
             Inl e \<Rightarrow> (1, w1)
           | Inr w2 \<Rightarrow> (0, w2)))"
  by (cases args) (simp_all add: main_def)

lemma search_raises:
  "p query m = Raises e \<Longrightarrow>
   search p query m start =
     (Exited 1, \<lparr>stdout = [JObject [(''error'', JString (str e))]], calls = [(query, m)]\<rparr>)"
  by (simp add: search_def call_provider_def print_error_object start_def)

lemma search_faulty:
  "p query m = Returns (map Record rs @ Faulty e # rest) \<Longrightarrow>
   search p query m start =
     (Exited 1, \<lparr>stdout = [JObject [(''error'', JString (str e))]], calls = [(query, m)]\<rparr>)"
  by (simp add: search_def call_provider_def print_error_object start_def comprehension_faulty)

lemma search_records:
  "p query m = Returns (map Record rs) \<Longrightarrow>
   search p query m start =
     (Returned (map record_of rs), \<lparr>stdout = [], calls = [(query, m)]\<rparr>)"
  by (simp add: search_def call_provider_def start_def comprehension_records)

lemma search_calls: "calls (snd (search p query m start)) = [(query, m)]"
  by (simp add: search_def call_provider_def print_error_object start_def
      split: response.split sum.split)

lemma main_calls:
  "args \<noteq> [] \<Longrightarrow> calls (snd (main p (prog # args) start)) = [(join '' '' args, 6)]"
  using search_calls [of p "join '' '' args" 6]
  by (cases "search p (join '' '' args) 6 start")
    (auto simp: main_arguments print_array simp del: unwritable.simps
      split: outcome.split list.split)

text \<open>A successful response: the array is printed, or \<^verbatim>\<open>json.dumps\<close> raises uncaught.\<close>

lemma main_records:
  "args \<noteq> [] \<Longrightarrow> p (join '' '' args) 6 = Returns (map Record rs) \<Longrightarrow>
   main p (prog # args) start =
     (case unwritable (JArray (map record_of rs)) of
        [] \<Rightarrow> (0, \<lparr>stdout = [JArray (map record_of rs)], calls = [(join '' '' args, 6)]\<rparr>)
      | e # es \<Rightarrow> (1, \<lparr>stdout = [], calls = [(join '' '' args, 6)]\<rparr>))"
  by (cases "unwritable (JArray (map record_of rs))")
    (simp_all add: main_arguments search_records print_array del: unwritable.simps)

lemma main_records_written:
  "args \<noteq> [] \<Longrightarrow> p (join '' '' args) 6 = Returns (map Record rs) \<Longrightarrow>
   unwritable (JArray (map record_of rs)) = [] \<Longrightarrow>
   main p (prog # args) start =
     (0, \<lparr>stdout = [JArray (map record_of rs)], calls = [(join '' '' args, 6)]\<rparr>)"
  by (simp add: main_records del: unwritable.simps)

text \<open>
  The array of a response is written exactly when no record holds, under \<^verbatim>\<open>title\<close>,
  \<^verbatim>\<open>href\<close> or \<^verbatim>\<open>body\<close>, a value that \<^verbatim>\<open>json.dumps\<close> refuses.
\<close>

lemma unwritable_record_of:
  "unwritable (record_of r) = [] \<longleftrightarrow>
     (\<forall>k \<in> {''title'', ''href'', ''body''}. \<forall>x e. r k \<noteq> Some (POther x (Some e)))"
proof -
  have v: "unwritable (JValue v) = [] \<longleftrightarrow> (\<forall>x e. v \<noteq> POther x (Some e))" for v
    by (cases "JValue v" rule: unwritable.cases) auto
  show ?thesis
    by (auto simp: record_of_fields v split: option.splits)
qed

lemma unwritable_records:
  "unwritable (JArray (map record_of rs)) = [] \<longleftrightarrow>
     (\<forall>r \<in> set rs. \<forall>k \<in> {''title'', ''href'', ''body''}. \<forall>x e. r k \<noteq> Some (POther x (Some e)))"
  using unwritable_record_of by simp

subsection \<open>No arguments\<close>

text \<open>
  Claim C3. When the argument list is empty (\<^verbatim>\<open>sys.argv\<close> holds the program name only),
  the program prints the JSON object with the single field \<^verbatim>\<open>error\<close> set to
  \<^verbatim>\<open>No query provided\<close>, and nothing else, exits with code 1, and makes no call to the
  provider, whatever the provider would answer.
\<close>

theorem no_arguments_error:
  "main p [prog] start =
     (1, \<lparr>stdout = [JObject [(''error'', JString ''No query provided'')]], calls = []\<rparr>)"
  by (simp add: main_no_arguments start_def)

theorem no_arguments_error_witness:
  "main (fixed_provider (Returns [Record (map_of [(''title'', PStr ''A'')])])) [''search.py'']
     start =
     (1, \<lparr>stdout = [JObject [(''error'', JString ''No query provided'')]], calls = []\<rparr>)"
  using no_arguments_error
    [where p = "fixed_provider (Returns [Record (map_of [(''title'', PStr ''A'')])])"
       and prog = "''search.py''"]
  by simp

subsection \<open>The provider call raises\<close>

text \<open>
  Claim C2. When the provider call raises an exception \<open>e\<close>, the program prints exactly
  the JSON object with the single field \<^verbatim>\<open>error\<close> set to \<^verbatim>\<open>str(e)\<close>, unchanged, exits
  with code 1, and prints no result array: the error object is the only document on
  standard output. The provider is called, so the argument list is not empty.
\<close>

theorem provider_exception_reported:
  assumes "args \<noteq> []" and "p (join '' '' args) 6 = Raises e"
  shows "main p (prog # args) start =
     (1, \<lparr>stdout = [JObject [(''error'', JString (str e))]], calls = [(join '' '' args, 6)]\<rparr>)"
  using assms by (simp add: main_arguments search_raises)

theorem provider_exception_reported_witness:
  "[''cats''] \<noteq> [] \<and>
   fixed_provider (Raises (PyException ''timed out'')) (join '' '' [''cats'']) 6 =
     Raises (PyException ''timed out'') \<and>
   main (fixed_provider (Raises (PyException ''timed out''))) [''search.py'', ''cats''] start =
     (1, \<lparr>stdout = [JObject [(''error'', JString ''timed out'')]], calls = [(''cats'', 6)]\<rparr>)"
  using provider_exception_reported
    [where args = "[''cats'']" and p = "fixed_provider (Raises (PyException ''timed out''))"
       and e = "PyException ''timed out''" and prog = "''search.py''"]
  by (simp add: fixed_provider_def)

subsection \<open>The length of the printed array\<close>

text \<open>
  Claim C1 says that a response of more than six records is cut to six. The script has
  no such cut: it hands \<^verbatim>\<open>max_results = 6\<close> to the provider and maps every record that
  comes back. A provider that answers with seven records gets seven records printed.
\<close>

theorem seven_records_not_truncated:
  "main (fixed_provider (Returns (replicate 7 (Record (map_of [(''title'', PStr ''t'')])))))
     [''search.py'', ''cats''] start =
   (0, \<lparr>stdout = [JArray (replicate 7 (JObject [(''title'', JString ''t''), (''url'', JString ''''),
                                                   (''snippet'', JString '''')]))],
        calls = [(''cats'', 6)]\<rparr>) \<and>
   length (replicate 7 (Record (map_of [(''title'', PStr ''t'')]))) = 7 \<and>
   length (replicate 7 (JObject [(''title'', JString ''t''), (''url'', JString ''''),
                                  (''snippet'', JString '''')])) \<noteq> 6"
  by (simp add: main_def search_def call_provider_def print_json_def json_dumps_def start_def
      fixed_provider_def record_of_def dict_get_def eval_nat_numeral)

text \<open>
  Claim C1, amended. For every successful provider response of \<open>N\<close> records that
  \<^verbatim>\<open>json.dumps\<close> can write, the printed JSON array has length \<open>N\<close>, for \<open>N \<le> 6\<close> and for
  \<open>N > 6\<close> alike; the limit 6 reaches the provider as \<^verbatim>\<open>max_results\<close>, in the one call the
  program makes.
\<close>

theorem output_length_is_response_length:
  assumes "args \<noteq> []" and "p (join '' '' args) 6 = Returns (map Record rs)"
    and "unwritable (JArray (map record_of rs)) = []"
  shows "\<exists>out. main p (prog # args) start =
            (0, \<lparr>stdout = [JArray out], calls = [(join '' '' args, 6)]\<rparr>) \<and>
          length out = length rs"
  using assms by (simp add: main_records_written del: unwritable.simps)

theorem output_length_is_response_length_witness:
  "[''cats''] \<noteq> [] \<and>
   fixed_provider (Returns (map Record [map_of [(''title'', PStr ''A'')], map_of []]))
     (join '' '' [''cats'']) 6 =
     Returns (map Record [map_of [(''title'', PStr ''A'')], map_of []]) \<and>
   unwritable (JArray (map record_of [map_of [(''title'', PStr ''A'')], map_of []])) = [] \<and>
   (\<exists>out. main (fixed_provider (Returns (map Record [map_of [(''title'', PStr ''A'')], map_of []])))
            [''search.py'', ''cats''] start =
            (0, \<lparr>stdout = [JArray out], calls = [(join '' '' [''cats''], 6)]\<rparr>) \<and>
          length out = length [map_of [(''title'', PStr ''A'')], map_of []])"
  using output_length_is_response_length
    [where args = "[''cats'']" and prog = "''search.py''"
       and p = "fixed_provider (Returns (map Record [map_of [(''title'', PStr ''A'')], map_of []]))"
       and rs = "[map_of [(''title'', PStr ''A'')], map_of []]"]
  by (simp add: fixed_provider_def record_of_def dict_get_def)

subsection \<open>The query\<close>

text \<open>
  Claim C5. For every non-empty argument list the program calls the provider once, with
  the arguments joined by single spaces as the query (the first argument, then each further
  argument after one space) and with \<^verbatim>\<open>max_results = 6\<close>; the arguments \<^verbatim>\<open>hello\<close> and
  \<^verbatim>\<open>world\<close> give the query \<^verbatim>\<open>hello world\<close>.
\<close>

theorem query_is_joined_arguments:
  assumes "args \<noteq> []"
  shows "calls (snd (main p (prog # args) start)) = [(join '' '' args, 6)] \<and>
         join '' '' args = hd args @ concat (map ((@) '' '') (tl args)) \<and>
         calls (snd (main p [prog, ''hello'', ''world''] start)) = [(''hello world'', 6)]"
proof -
  have "join '' '' args = hd args @ concat (map ((@) '' '') (tl args))"
    using assms by (cases args) (simp_all add: join_space)
  moreover have "calls (snd (main p [prog, ''hello'', ''world''] start)) = [(''hello world'', 6)]"
    using main_calls [of "[''hello'', ''world'']" p prog] by simp
  ultimately show ?thesis
    using assms by (simp add: main_calls)
qed

theorem query_is_joined_arguments_witness:
  "[''web'', ''search'', ''api''] \<noteq> [] \<and>
   calls (snd (main (fixed_provider (Returns [])) [''search.py'', ''web'', ''search'', ''api'']
     start)) = [(''web search api'', 6)]"
  using query_is_joined_arguments
    [where args = "[''web'', ''search'', ''api'']" and p = "fixed_provider (Returns [])"
       and prog = "''search.py''"]
  by simp

subsection \<open>The shape of an output record\<close>

text \<open>
  Claim C4 says that each of the three fields of an output record is a string. The
  script stores what \<^verbatim>\<open>r.get\<close> returns and converts nothing: a provider record whose
  \<^verbatim>\<open>title\<close> is \<^verbatim>\<open>None\<close> gives an output record whose \<^verbatim>\<open>title\<close> is \<^verbatim>\<open>null\<close>.
\<close>

theorem null_title_passed_through:
  "main (fixed_provider (Returns [Record (map_of [(''title'', PNone), (''href'', PStr ''http://a''),
                                                 (''body'', PStr ''b1'')])]))
     [''search.py'', ''cats''] start =
   (0, \<lparr>stdout = [JArray [JObject [(''title'', JNull), (''url'', JString ''http://a''),
                                   (''snippet'', JString ''b1'')]]],
        calls = [(''cats'', 6)]\<rparr>) \<and>
   \<not> is_string JNull"
  by (simp add: main_def search_def call_provider_def print_json_def json_dumps_def start_def
      fixed_provider_def record_of_def dict_get_def)

text \<open>
  Claim C4, amended. Every record in a successful output array has exactly the three
  fields \<^verbatim>\<open>title\<close>, \<^verbatim>\<open>url\<close> and \<^verbatim>\<open>snippet\<close>. Each holds the value the provider record has
  under \<^verbatim>\<open>title\<close>, \<^verbatim>\<open>href\<close> and \<^verbatim>\<open>body\<close>, unchanged, and the empty string when that key is
  absent; so a field is a string whenever the provider's value for it is a string or is
  absent. An output array is one that \<^verbatim>\<open>json.dumps\<close> has written.
\<close>

theorem output_record_fields:
  assumes "args \<noteq> []" and "p (join '' '' args) 6 = Returns (map Record rs)"
    and "unwritable (JArray (map record_of rs)) = []"
  shows "\<exists>out. main p (prog # args) start =
            (0, \<lparr>stdout = [JArray out], calls = [(join '' '' args, 6)]\<rparr>) \<and>
          length out = length rs \<and>
          (\<forall>i < length rs. \<exists>t u s.
             out ! i = JObject [(''title'', JValue t), (''url'', JValue u), (''snippet'', JValue s)] \<and>
             t = (case (rs ! i) ''title'' of None \<Rightarrow> PStr '''' | Some v \<Rightarrow> v) \<and>
             u = (case (rs ! i) ''href'' of None \<Rightarrow> PStr '''' | Some v \<Rightarrow> v) \<and>
             s = (case (rs ! i) ''body'' of None \<Rightarrow> PStr '''' | Some v \<Rightarrow> v) \<and>
             ((\<forall>v. (rs ! i) ''title'' = Some v \<longrightarrow> is_string (JValue v)) \<longrightarrow>
                is_string (JValue t)) \<and>
             ((\<forall>v. (rs ! i) ''href'' = Some v \<longrightarrow> is_string (JValue v)) \<longrightarrow>
                is_string (JValue u)) \<and>
             ((\<forall>v. (rs ! i) ''body'' = Some v \<longrightarrow> is_string (JValue v)) \<longrightarrow>
                is_string (JValue s)))"
proof -
  have "main p (prog # args) start =
          (0, \<lparr>stdout = [JArray (map record_of rs)], calls = [(join '' '' args, 6)]\<rparr>)"
    using assms by (rule main_records_written)
  moreover have "\<exists>t u s.
             map record_of rs ! i =
               JObject [(''title'', JValue t), (''url'', JValue u), (''snippet'', JValue s)] \<and>
             t = (case (rs ! i) ''title'' of None \<Rightarrow> PStr '''' | Some v \<Rightarrow> v) \<and>
             u = (case (rs ! i) ''href'' of None \<Rightarrow> PStr '''' | Some v \<Rightarrow> v) \<and>
             s = (case (rs ! i) ''body'' of None \<Rightarrow> PStr '''' | Some v \<Rightarrow> v) \<and>
             ((\<forall>v. (rs ! i) ''title'' = Some v \<longrightarrow> is_string (JValue v)) \<longrightarrow>
                is_string (JValue t)) \<and>
             ((\<forall>v. (rs ! i) ''href'' = Some v \<longrightarrow> is_string (JValue v)) \<longrightarrow>
                is_string (JValue u)) \<and>
             ((\<forall>v. (rs ! i) ''body'' = Some v \<longrightarrow> is_string (JValue v)) \<longrightarrow>
                is_string (JValue s))"
    if "i < length rs" for i
    using that by (simp add: record_of_fields split: option.split)
  ultimately show ?thesis by simp
qed

theorem output_record_fields_witness:
  "[''cats''] \<noteq> [] \<and>
   fixed_provider (Returns (map Record [map_of [(''title'', PStr ''A'')]]))
     (join '' '' [''cats'']) 6 = Returns (map Record [map_of [(''title'', PStr ''A'')]]) \<and>
   unwritable (JArray (map record_of [map_of [(''title'', PStr ''A'')]])) = [] \<and>
   main (fixed_provider (Returns (map Record [map_of [(''title'', PStr ''A'')]])))
     [''search.py'', ''cats''] start =
     (0, \<lparr>stdout = [JArray [JObject [(''title'', JString ''A''), (''url'', JString ''''),
                                     (''snippet'', JString '''')]]],
          calls = [(''cats'', 6)]\<rparr>) \<and>
   is_string (JString ''A'') \<and> is_string (JString '''')"
  using output_record_fields
    [where args = "[''cats'']" and prog = "''search.py''"
       and p = "fixed_provider (Returns (map Record [map_of [(''title'', PStr ''A'')]]))"
       and rs = "[map_of [(''title'', PStr ''A'')]]"]
  by (auto simp: fixed_provider_def record_of_def dict_get_def length_Suc_conv)

subsection \<open>The mapping of the fields\<close>

text \<open>
  Claim C6. The output \<^verbatim>\<open>title\<close> is the provider's \<^verbatim>\<open>title\<close>, the output \<^verbatim>\<open>url\<close> is the
  provider's \<^verbatim>\<open>href\<close>, the output \<^verbatim>\<open>snippet\<close> is the provider's \<^verbatim>\<open>body\<close>, for the record at
  every position of a response whose array is printed. In particular the argument
  \<^verbatim>\<open>cats\<close> with the response of the one record (title \<^verbatim>\<open>A\<close>, href \<^verbatim>\<open>http://a\<close>, body \<^verbatim>\<open>b1\<close>)
  prints the array of the one record (title \<^verbatim>\<open>A\<close>, url \<^verbatim>\<open>http://a\<close>, snippet \<^verbatim>\<open>b1\<close>) and
  exits with code 0.
\<close>

theorem field_mapping:
  "(p ''cats'' 6 = Returns [Record (map_of [(''title'', PStr ''A''), (''href'', PStr ''http://a''),
                                            (''body'', PStr ''b1'')])] \<longrightarrow>
    main p [prog, ''cats''] start =
      (0, \<lparr>stdout = [JArray [JObject [(''title'', JString ''A''), (''url'', JString ''http://a''),
                                      (''snippet'', JString ''b1'')]]],
           calls = [(''cats'', 6)]\<rparr>)) \<and>
   (args \<noteq> [] \<and> p (join '' '' args) 6 = Returns (map Record rs) \<and>
    unwritable (JArray (map record_of rs)) = [] \<and> i < length rs \<and>
    (rs ! i) ''title'' = Some t \<and> (rs ! i) ''href'' = Some u \<and> (rs ! i) ''body'' = Some s \<longrightarrow>
    (\<exists>out. main p (prog # args) start =
            (0, \<lparr>stdout = [JArray out], calls = [(join '' '' args, 6)]\<rparr>) \<and>
          length out = length rs \<and>
          out ! i = JObject [(''title'', JValue t), (''url'', JValue u), (''snippet'', JValue s)]))"
proof (intro conjI impI)
  let ?r = "map_of [(''title'', PStr ''A''), (''href'', PStr ''http://a''), (''body'', PStr ''b1'')]"
  assume "p ''cats'' 6 = Returns [Record ?r]"
  then have "p (join '' '' [''cats'']) 6 = Returns (map Record [?r])"
    by simp
  moreover have "unwritable (JArray (map record_of [?r])) = []"
    by (simp add: record_of_def dict_get_def)
  ultimately have "main p (prog # [''cats'']) start =
      (0, \<lparr>stdout = [JArray (map record_of [?r])], calls = [(join '' '' [''cats''], 6)]\<rparr>)"
    by (intro main_records_written) simp_all
  then show "main p [prog, ''cats''] start =
      (0, \<lparr>stdout = [JArray [JObject [(''title'', JString ''A''), (''url'', JString ''http://a''),
                                      (''snippet'', JString ''b1'')]]],
           calls = [(''cats'', 6)]\<rparr>)"
    by (simp add: record_of_def dict_get_def)
next
  assume a: "args \<noteq> [] \<and> p (join '' '' args) 6 = Returns (map Record rs) \<and>
    unwritable (JArray (map record_of rs)) = [] \<and> i < length rs \<and>
    (rs ! i) ''title'' = Some t \<and> (rs ! i) ''href'' = Some u \<and> (rs ! i) ''body'' = Some s"
  then have "main p (prog # args) start =
          (0, \<lparr>stdout = [JArray (map record_of rs)], calls = [(join '' '' args, 6)]\<rparr>)"
    by (intro main_records_written) (simp_all del: unwritable.simps)
  moreover have "map record_of rs ! i =
      JObject [(''title'', JValue t), (''url'', JValue u), (''snippet'', JValue s)]"
    using a by (simp add: record_of_fields)
  ultimately show "\<exists>out. main p (prog # args) start =
            (0, \<lparr>stdout = [JArray out], calls = [(join '' '' args, 6)]\<rparr>) \<and>
          length out = length rs \<and>
          out ! i = JObject [(''title'', JValue t), (''url'', JValue u), (''snippet'', JValue s)]"
    by simp
qed

theorem field_mapping_witness:
  "fixed_provider (Returns [Record (map_of [(''title'', PStr ''A''), (''href'', PStr ''http://a''),
                                            (''body'', PStr ''b1'')])]) ''cats'' 6 =
     Returns [Record (map_of [(''title'', PStr ''A''), (''href'', PStr ''http://a''),
                              (''body'', PStr ''b1'')])] \<and>
   main (fixed_provider (Returns [Record (map_of [(''title'', PStr ''A''),
           (''href'', PStr ''http://a''), (''body'', PStr ''b1'')])]))
     [''search.py'', ''cats''] start =
      (0, \<lparr>stdout = [JArray [JObject [(''title'', JString ''A''), (''url'', JString ''http://a''),
                                      (''snippet'', JString ''b1'')]]],
           calls = [(''cats'', 6)]\<rparr>)"
  using field_mapping
    [where p = "fixed_provider (Returns [Record (map_of [(''title'', PStr ''A''),
                  (''href'', PStr ''http://a''), (''body'', PStr ''b1'')])])"
       and prog = "''search.py''" and args = "[''cats'']"
       and rs = "[map_of [(''title'', PStr ''A''), (''href'', PStr ''http://a''),
                  (''body'', PStr ''b1'')]]"
       and i = 0 and t = "PStr ''A''" and u = "PStr ''http://a''" and s = "PStr ''b1''"]
  by (simp add: fixed_provider_def)

subsection \<open>Order\<close>

text \<open>
  Claim C7. On success (the array is printed) the printed array keeps the order of the
  provider's response: its \<open>i\<close>-th element is the dictionary built from the \<open>i\<close>-th provider
  record, for every \<open>i\<close>.
\<close>

theorem provider_order_preserved:
  assumes "args \<noteq> []" and "p (join '' '' args) 6 = Returns (map Record rs)"
    and "unwritable (JArray (map record_of rs)) = []"
  shows "\<exists>out. main p (prog # args) start =
            (0, \<lparr>stdout = [JArray out], calls = [(join '' '' args, 6)]\<rparr>) \<and>
          length out = length rs \<and>
          (\<forall>i < length rs. out ! i = record_of (rs ! i))"
  using assms by (simp add: main_records_written del: unwritable.simps)

theorem provider_order_preserved_witness:
  "[''cats''] \<noteq> [] \<and>
   fixed_provider (Returns (map Record [map_of [(''title'', PStr ''A'')],
                                        map_of [(''title'', PStr ''B'')]]))
     (join '' '' [''cats'']) 6 =
     Returns (map Record [map_of [(''title'', PStr ''A'')], map_of [(''title'', PStr ''B'')]]) \<and>
   unwritable (JArray (map record_of [map_of [(''title'', PStr ''A'')],
                                      map_of [(''title'', PStr ''B'')]])) = [] \<and>
   main (fixed_provider (Returns (map Record [map_of [(''title'', PStr ''A'')],
                                              map_of [(''title'', PStr ''B'')]])))
     [''search.py'', ''cats''] start =
     (0, \<lparr>stdout = [JArray [JObject [(''title'', JString ''A''), (''url'', JString ''''),
                                     (''snippet'', JString '''')],
                            JObject [(''title'', JString ''B''), (''url'', JString ''''),
                                     (''snippet'', JString '''')]]],
          calls = [(''cats'', 6)]\<rparr>)"
  using provider_order_preserved
    [where args = "[''cats'']" and prog = "''search.py''"
       and p = "fixed_provider (Returns (map Record [map_of [(''title'', PStr ''A'')],
                                                     map_of [(''title'', PStr ''B'')]]))"
       and rs = "[map_of [(''title'', PStr ''A'')], map_of [(''title'', PStr ''B'')]]"]
  by (auto simp: fixed_provider_def record_of_def dict_get_def length_Suc_conv less_Suc_eq)

subsection \<open>Success\<close>

text \<open>
  Claim C8 says that the program prints the array and exits with code 0 whenever the
  provider call succeeds. The last \<^verbatim>\<open>print(json.dumps(results))\<close> is outside the \<^verbatim>\<open>try\<close>
  and \<^verbatim>\<open>search\<close> converts no value: a provider record whose \<^verbatim>\<open>title\<close> is a set makes
  \<^verbatim>\<open>json.dumps\<close> raise \<^verbatim>\<open>TypeError\<close>, nothing is printed and the exit code is 1.
\<close>

theorem unwritable_value_exits_one:
  "main (fixed_provider (Returns [Record (map_of
       [(''title'', POther ''{1, 2}''
            (Some (PyException ''Object of type set is not JSON serializable''))),
        (''href'', PStr ''http://a''), (''body'', PStr ''b1'')])]))
     [''search.py'', ''cats''] start =
   (1, \<lparr>stdout = [], calls = [(''cats'', 6)]\<rparr>)"
  by (simp add: main_def search_def call_provider_def print_json_def json_dumps_def start_def
      fixed_provider_def record_of_def dict_get_def)

text \<open>
  Claim C8, amended. For every invocation with a non-empty argument list in which the
  provider call succeeds (it returns a sequence of dictionaries and the comprehension reads
  all of them): when \<^verbatim>\<open>json.dumps\<close> can write every value taken from the records, the
  program prints the JSON array of the records built from them, as its only document on
  standard output, and exits with code 0; otherwise the exception of \<^verbatim>\<open>json.dumps\<close> is not
  caught, nothing is printed on standard output and the exit code is 1.
\<close>

theorem success_prints_array_when_writable:
  assumes "args \<noteq> []" and "p (join '' '' args) 6 = Returns (map Record rs)"
  shows "(unwritable (JArray (map record_of rs)) = [] \<longrightarrow>
            fst (main p (prog # args) start) = 0 \<and>
            stdout (snd (main p (prog # args) start)) = [JArray (map record_of rs)]) \<and>
         (unwritable (JArray (map record_of rs)) \<noteq> [] \<longrightarrow>
            fst (main p (prog # args) start) = 1 \<and>
            stdout (snd (main p (prog # args) start)) = [])"
  using assms
  by (cases "unwritable (JArray (map record_of rs))")
    (simp_all add: main_records del: unwritable.simps)

theorem success_prints_array_when_writable_witness:
  "[''two'', ''words''] \<noteq> [] \<and>
   fixed_provider (Returns (map Record [map_of [(''href'', PStr ''http://a'')]]))
     (join '' '' [''two'', ''words'']) 6 =
     Returns (map Record [map_of [(''href'', PStr ''http://a'')]]) \<and>
   unwritable (JArray (map record_of [map_of [(''href'', PStr ''http://a'')]])) = [] \<and>
   fst (main (fixed_provider (Returns (map Record [map_of [(''href'', PStr ''http://a'')]])))
     [''search.py'', ''two'', ''words''] start) = 0 \<and>
   stdout (snd (main (fixed_provider (Returns (map Record [map_of [(''href'', PStr ''http://a'')]])))
     [''search.py'', ''two'', ''words''] start)) =
     [JArray [JObject [(''title'', JString ''''), (''url'', JString ''http://a''),
                       (''snippet'', JString '''')]]] \<and>
   fixed_provider (Returns (map Record [map_of [(''body'', POther ''{3}''
       (Some (PyException ''Object of type set is not JSON serializable'')))]]))
     (join '' '' [''two'', ''words'']) 6 =
     Returns (map Record [map_of [(''body'', POther ''{3}''
       (Some (PyException ''Object of type set is not JSON serializable'')))]]) \<and>
   unwritable (JArray (map record_of [map_of [(''body'', POther ''{3}''
       (Some (PyException ''Object of type set is not JSON serializable'')))]])) \<noteq> [] \<and>
   fst (main (fixed_provider (Returns (map Record [map_of [(''body'', POther ''{3}''
       (Some (PyException ''Object of type set is not JSON serializable'')))]])))
     [''search.py'', ''two'', ''words''] start) = 1 \<and>
   stdout (snd (main (fixed_provider (Returns (map Record [map_of [(''body'', POther ''{3}''
       (Some (PyException ''Object of type set is not JSON serializable'')))]])))
     [''search.py'', ''two'', ''words''] start)) = []"
  using success_prints_array_when_writable
    [where args = "[''two'', ''words'']" and prog = "''search.py''"
       and p = "fixed_provider (Returns (map Record [map_of [(''href'', PStr ''http://a'')]]))"
       and rs = "[map_of [(''href'', PStr ''http://a'')]]"]
    success_prints_array_when_writable
    [where args = "[''two'', ''words'']" and prog = "''search.py''"
       and p = "fixed_provider (Returns (map Record [map_of [(''body'', POther ''{3}''
                  (Some (PyException ''Object of type set is not JSON serializable'')))]]))"
       and rs = "[map_of [(''body'', POther ''{3}''
                  (Some (PyException ''Object of type set is not JSON serializable'')))]]"]
  by (simp add: fixed_provider_def record_of_def dict_get_def)

subsection \<open>An exception inside the comprehension\<close>

text \<open>
  Claim C9. An exception raised while the comprehension iterates over the returned
  records or builds a dictionary from one of them, after the provider call itself has
  returned, is caught by the same handler: the program prints the JSON object with the
  single field \<^verbatim>\<open>error\<close> set to \<^verbatim>\<open>str(e)\<close>, and nothing else, and exits with code 1. Here
  \<open>e\<close> is the first exception raised: the records before it were read without one.
\<close>

theorem comprehension_exception_reported:
  assumes "args \<noteq> []"
    and "p (join '' '' args) 6 = Returns (map Record rs @ Faulty e # rest)"
  shows "main p (prog # args) start =
     (1, \<lparr>stdout = [JObject [(''error'', JString (str e))]], calls = [(join '' '' args, 6)]\<rparr>)"
  using assms by (simp add: main_arguments search_faulty)

theorem comprehension_exception_reported_witness:
  "[''cats''] \<noteq> [] \<and>
   fixed_provider (Returns (map Record [map_of [(''title'', PStr ''A'')]] @
       Faulty (PyException ''no attribute get'') # [Record (map_of [])]))
     (join '' '' [''cats'']) 6 =
     Returns (map Record [map_of [(''title'', PStr ''A'')]] @
       Faulty (PyException ''no attribute get'') # [Record (map_of [])]) \<and>
   main (fixed_provider (Returns (map Record [map_of [(''title'', PStr ''A'')]] @
       Faulty (PyException ''no attribute get'') # [Record (map_of [])])))
     [''search.py'', ''cats''] start =
     (1, \<lparr>stdout = [JObject [(''error'', JString ''no attribute get'')]],
          calls = [(''cats'', 6)]\<rparr>)"
  using comprehension_exception_reported
    [where args = "[''cats'']" and prog = "''search.py''"
       and p = "fixed_provider (Returns (map Record [map_of [(''title'', PStr ''A'')]] @
                  Faulty (PyException ''no attribute get'') # [Record (map_of [])]))"
       and rs = "[map_of [(''title'', PStr ''A'')]]"
       and e = "PyException ''no attribute get''" and rest = "[Record (map_of [])]"]
  by (simp add: fixed_provider_def)

subsection \<open>When the missing-query error is raised\<close>

text \<open>
  Claim C10. The program ends in the missing-query branch (exit code 1, the object with
  \<^verbatim>\<open>error\<close> set to \<^verbatim>\<open>No query provided\<close> printed, no provider call) if and only if the
  argument list is empty. Empty strings count as arguments: the single argument \<^verbatim>\<open>""\<close>
  passes the check and the provider is called with the empty query, and an argument list
  of empty strings only gives a query of spaces only (one space fewer than arguments).
\<close>

theorem no_query_iff_no_arguments:
  "(main p (prog # args) start =
      (1, \<lparr>stdout = [JObject [(''error'', JString ''No query provided'')]], calls = []\<rparr>)
    \<longleftrightarrow> args = []) \<and>
   (calls (snd (main p (prog # args) start)) = [] \<longleftrightarrow> args = []) \<and>
   calls (snd (main p [prog, ''''] start)) = [('''', 6)] \<and>
   calls (snd (main p [prog, '''', ''''] start)) = [('' '', 6)] \<and>
   calls (snd (main p (prog # replicate (Suc n) '''') start)) = [(replicate n (CHR '' ''), 6)]"
proof -
  have e: "main p [prog] start =
      (1, \<lparr>stdout = [JObject [(''error'', JString ''No query provided'')]], calls = []\<rparr>)"
    by (simp add: main_no_arguments start_def)
  have "main p (prog # args) start \<noteq>
      (1, \<lparr>stdout = [JObject [(''error'', JString ''No query provided'')]], calls = []\<rparr>)"
    if "args \<noteq> []"
  proof
    assume "main p (prog # args) start =
      (1, \<lparr>stdout = [JObject [(''error'', JString ''No query provided'')]], calls = []\<rparr>)"
    then have "calls (snd (main p (prog # args) start)) = []" by simp
    with main_calls [OF that, of p prog] show False by simp
  qed
  moreover have "calls (snd (main p (prog # args) start)) \<noteq> []" if "args \<noteq> []"
    using main_calls [OF that, of p prog] by simp
  moreover have "calls (snd (main p [prog, ''''] start)) = [('''', 6)]"
    using main_calls [of "['''']" p prog] by simp
  moreover have "calls (snd (main p [prog, '''', ''''] start)) = [('' '', 6)]"
    using main_calls [of "['''', '''']" p prog] by simp
  moreover have "calls (snd (main p (prog # replicate (Suc n) '''') start)) =
      [(replicate n (CHR '' ''), 6)]"
    using main_calls [of "replicate (Suc n) ''''" p prog]
    by (simp only: join_empty_strings) simp
  ultimately show ?thesis using e by auto
qed

theorem no_query_iff_no_arguments_witness:
  "main (fixed_provider (Returns [])) [''search.py'', ''''] start \<noteq>
      (1, \<lparr>stdout = [JObject [(''error'', JString ''No query provided'')]], calls = []\<rparr>) \<and>
   calls (snd (main (fixed_provider (Returns [])) [''search.py'', ''''] start)) = [('''', 6)] \<and>
   calls (snd (main (fixed_provider (Returns [])) [''search.py'', '''', '''', ''''] start)) =
     [(''  '', 6)]"
  using no_query_iff_no_arguments
    [where p = "fixed_provider (Returns [])" and prog = "''search.py''" and args = "['''']"
       and n = 2]
  by (simp add: eval_nat_numeral)

end
